theory Spec2Isabelle
  imports Main "HOL-Library.Sublist"
begin

section \<open>Google provider option types (src/ai/types.ts)\<close>

datatype HarmCategory =
    HARM_CATEGORY_DANGEROUS_CONTENT
  | HARM_CATEGORY_HATE_SPEECH
  | HARM_CATEGORY_HARASSMENT
  | HARM_CATEGORY_SEXUALLY_EXPLICIT

datatype HarmBlockThreshold =
    BLOCK_LOW_AND_ABOVE
  | BLOCK_MEDIUM_AND_ABOVE
  | BLOCK_HIGH_AND_ABOVE
  | BLOCK_ONLY_HIGH

record SafetySetting =
  category :: HarmCategory
  threshold :: HarmBlockThreshold

text \<open>
  \<open>thinkingBudget\<close> is a TypeScript \<open>number\<close>; the module only ever writes the integer
  literal 1024 there, so the field is an \<open>int\<close>.
\<close>

record ThinkingConfig =
  thinkingBudget :: int

datatype ResponseModality = TEXT | IMAGE

record GoogleProviderOptions =
  responseModalities :: "ResponseModality list"
  thinkingConfig :: ThinkingConfig
  safetySettings :: "SafetySetting list"

record ProviderOptions =
  google :: GoogleProviderOptions


section \<open>The provider module (src/unnamed/part\_000)\<close>

subsection \<open>Metadata records and the reasoning middleware\<close>

record ModelInfo =
  provider :: string
  name :: string
  description :: string
  apiVersion :: string
  capabilities :: "string list"

text \<open>The options object handed to \<open>extractReasoningMiddleware\<close> (lines 22-24).\<close>

record ReasoningMiddlewareOptions =
  tagName :: string

definition middleware :: ReasoningMiddlewareOptions where
  "middleware = \<lparr>tagName = ''think''\<rparr>"


subsection \<open>Exceptions\<close>

text \<open>
  A thrown exception is a value: a computation that may throw returns \<open>Inl\<close> of the
  exception or \<open>Inr\<close> of its result, and \<open>and_then\<close> sequences two of them, the first
  exception ending the evaluation.
\<close>

datatype error = Thrown string

definition and_then :: "error + 'a \<Rightarrow> ('a \<Rightarrow> error + 'b) \<Rightarrow> error + 'b" where
  "and_then r f = (case r of Inl e \<Rightarrow> Inl e | Inr x \<Rightarrow> f x)"


subsection \<open>Credential resolution: \<open>getApiKey\<close> (lines 27-39)\<close>

text \<open>
  \<open>process.env\<close> maps a key name to a string or to \<open>undefined\<close>; \<open>localStorage.getItem\<close>
  returns a string or \<open>null\<close>. Both are maps to \<open>string option\<close>.

  The global \<open>window\<close> is either undefined (\<open>None\<close>) or an object. Line 34 tests only
  \<open>typeof window\<close>; line 35 then evaluates \<open>window.localStorage.getItem(key)\<close>. On a window
  whose \<open>localStorage\<close> property is undefined that is a \<open>TypeError\<close>, and where the browser
  denies access to the store, reading the property is a \<open>SecurityError\<close>.
\<close>

type_synonym env = "string \<Rightarrow> string option"
type_synonym storage = "string \<Rightarrow> string option"

datatype LocalStorage = Readable storage | Missing | Denied

record Window =
  localStorage :: LocalStorage

text \<open>JavaScript truthiness of a \<open>string | undefined | null\<close> value.\<close>

fun truthy :: "string option \<Rightarrow> bool" where
  "truthy None = False"
| "truthy (Some s) = (s \<noteq> [])"

text \<open>The expression \<open>v || undefined\<close>.\<close>

definition or_undefined :: "string option \<Rightarrow> string option" where
  "or_undefined v = (if truthy v then v else None)"

text \<open>
  A call either throws or returns; what it returns is the value together with the list of
  key names that were read from the persistent store by \<open>getItem\<close> during the call.
\<close>

definition getApiKey ::
  "env \<Rightarrow> Window option \<Rightarrow> string \<Rightarrow> error + (string option \<times> string list)" where
  "getApiKey processEnv window key =
     (if truthy (processEnv key) then Inr (or_undefined (processEnv key), [])
      else (case window of
              Some w \<Rightarrow>
                (case localStorage w of
                   Readable store \<Rightarrow> Inr (or_undefined (store key), [key])
                 | Missing \<Rightarrow> Inl (Thrown ''TypeError'')
                 | Denied \<Rightarrow> Inl (Thrown ''SecurityError''))
            | None \<Rightarrow> Inr (None, [])))"


subsection \<open>Provider clients (lines 42-61)\<close>

datatype ClientRef = openaiClient | anthropicClient | groqClient | xaiClient | googleClient

record ClientSettings =
  apiKey :: "string option"
  baseURL :: "string option"

text \<open>The settings object of each factory call; evaluating it calls \<open>getApiKey\<close>.\<close>

fun clientSettings :: "env \<Rightarrow> Window option \<Rightarrow> ClientRef \<Rightarrow> error + ClientSettings" where
  "clientSettings processEnv window openaiClient =
     and_then (getApiKey processEnv window ''OPENAI_API_KEY'')
       (\<lambda>r. Inr \<lparr>apiKey = fst r, baseURL = None\<rparr>)"
| "clientSettings processEnv window anthropicClient =
     and_then (getApiKey processEnv window ''ANTHROPIC_API_KEY'')
       (\<lambda>r. Inr \<lparr>apiKey = fst r, baseURL = None\<rparr>)"
| "clientSettings processEnv window groqClient =
     and_then (getApiKey processEnv window ''GROQ_API_KEY'')
       (\<lambda>r. Inr \<lparr>apiKey = fst r, baseURL = None\<rparr>)"
| "clientSettings processEnv window xaiClient =
     and_then (getApiKey processEnv window ''XAI_API_KEY'')
       (\<lambda>r. Inr \<lparr>apiKey = fst r, baseURL = None\<rparr>)"
| "clientSettings processEnv window googleClient =
     and_then (getApiKey processEnv window ''GOOGLE_GENERATIVE_AI_API_KEY'')
       (\<lambda>r. Inr \<lparr>apiKey = fst r,
                 baseURL = Some ''https://generativelanguage.googleapis.com/v1beta''\<rparr>)"


subsection \<open>The model registry \<open>languageModels\<close> (lines 63-153)\<close>

text \<open>
  Each property of the object literal is recorded as the construction expression the source
  writes: a direct call \<open>client(version)\<close>, or \<open>wrapLanguageModel\<close> around such a call with
  the module's one \<open>middleware\<close> binding and optional provider options. The list keeps the
  order of the literal.
\<close>

datatype ModelExpr =
    Direct ClientRef string
  | Wrapped ClientRef string "ProviderOptions option"

fun backendClient :: "ModelExpr \<Rightarrow> ClientRef" where
  "backendClient (Direct c v) = c"
| "backendClient (Wrapped c v po) = c"

fun backendVersion :: "ModelExpr \<Rightarrow> string" where
  "backendVersion (Direct c v) = v"
| "backendVersion (Wrapped c v po) = v"

fun isWrapped :: "ModelExpr \<Rightarrow> bool" where
  "isWrapped (Direct c v) = False"
| "isWrapped (Wrapped c v po) = True"

definition languageModels :: "(string \<times> ModelExpr) list" where
  "languageModels =
    [(''gpt-4.1-mini'', Direct openaiClient ''gpt-4.1-mini''),
     (''claude-3-7-sonnet'', Direct anthropicClient ''claude-3-7-sonnet-20250219''),
     (''qwen-qwq'', Wrapped groqClient ''qwen-qwq-32b'' None),
     (''grok-3-mini'', Direct xaiClient ''grok-3-mini-latest''),
     (''gemini-pro'', Wrapped googleClient ''gemini-pro''
        (Some \<lparr>google = \<lparr>
           responseModalities = [TEXT],
           thinkingConfig = \<lparr>thinkingBudget = 1024\<rparr>,
           safetySettings =
             [\<lparr>category = HARM_CATEGORY_DANGEROUS_CONTENT, threshold = BLOCK_MEDIUM_AND_ABOVE\<rparr>,
              \<lparr>category = HARM_CATEGORY_HATE_SPEECH, threshold = BLOCK_MEDIUM_AND_ABOVE\<rparr>,
              \<lparr>category = HARM_CATEGORY_HARASSMENT, threshold = BLOCK_MEDIUM_AND_ABOVE\<rparr>,
              \<lparr>category = HARM_CATEGORY_SEXUALLY_EXPLICIT, threshold = BLOCK_MEDIUM_AND_ABOVE\<rparr>]\<rparr>\<rparr>)),
     (''gemini-2-5-flash-preview'', Wrapped googleClient ''gemini-2.5-flash-preview-04-17''
        (Some \<lparr>google = \<lparr>
           responseModalities = [TEXT],
           thinkingConfig = \<lparr>thinkingBudget = 1024\<rparr>,
           safetySettings =
             [\<lparr>category = HARM_CATEGORY_DANGEROUS_CONTENT, threshold = BLOCK_MEDIUM_AND_ABOVE\<rparr>,
              \<lparr>category = HARM_CATEGORY_HATE_SPEECH, threshold = BLOCK_MEDIUM_AND_ABOVE\<rparr>,
              \<lparr>category = HARM_CATEGORY_HARASSMENT, threshold = BLOCK_MEDIUM_AND_ABOVE\<rparr>,
              \<lparr>category = HARM_CATEGORY_SEXUALLY_EXPLICIT, threshold = BLOCK_MEDIUM_AND_ABOVE\<rparr>]\<rparr>\<rparr>)),
     (''gemini-2-5-pro-exp'', Wrapped googleClient ''gemini-2.5-pro-exp-03-25''
        (Some \<lparr>google = \<lparr>
           responseModalities = [TEXT],
           thinkingConfig = \<lparr>thinkingBudget = 1024\<rparr>,
           safetySettings =
             [\<lparr>category = HARM_CATEGORY_DANGEROUS_CONTENT, threshold = BLOCK_MEDIUM_AND_ABOVE\<rparr>,
              \<lparr>category = HARM_CATEGORY_HATE_SPEECH, threshold = BLOCK_MEDIUM_AND_ABOVE\<rparr>,
              \<lparr>category = HARM_CATEGORY_HARASSMENT, threshold = BLOCK_MEDIUM_AND_ABOVE\<rparr>,
              \<lparr>category = HARM_CATEGORY_SEXUALLY_EXPLICIT, threshold = BLOCK_MEDIUM_AND_ABOVE\<rparr>]\<rparr>\<rparr>)),
     (''gemini-2-0-flash'', Wrapped googleClient ''gemini-2.0-flash''
        (Some \<lparr>google = \<lparr>
           responseModalities = [TEXT],
           thinkingConfig = \<lparr>thinkingBudget = 1024\<rparr>,
           safetySettings =
             [\<lparr>category = HARM_CATEGORY_DANGEROUS_CONTENT, threshold = BLOCK_MEDIUM_AND_ABOVE\<rparr>,
              \<lparr>category = HARM_CATEGORY_HATE_SPEECH, threshold = BLOCK_MEDIUM_AND_ABOVE\<rparr>,
              \<lparr>category = HARM_CATEGORY_HARASSMENT, threshold = BLOCK_MEDIUM_AND_ABOVE\<rparr>,
              \<lparr>category = HARM_CATEGORY_SEXUALLY_EXPLICIT, threshold = BLOCK_MEDIUM_AND_ABOVE\<rparr>]\<rparr>\<rparr>))]"


subsection \<open>The metadata catalog \<open>modelDetails\<close> (lines 155-212)\<close>

definition modelDetails :: "(string \<times> ModelInfo) list" where
  "modelDetails =
    [(''gpt-4.1-mini'',
        \<lparr>provider = ''OpenAI'', name = ''GPT-4.1 Mini'',
         description = ''Compact version of OpenAI's GPT-4.1 with good balance of capabilities, including vision.'',
         apiVersion = ''gpt-4.1-mini'',
         capabilities = [''Balance'', ''Creative'', ''Vision'']\<rparr>),
     (''claude-3-7-sonnet'',
        \<lparr>provider = ''Anthropic'', name = ''Claude 3.7 Sonnet'',
         description = ''Latest version of Anthropic's Claude 3.7 Sonnet with strong reasoning and coding capabilities.'',
         apiVersion = ''claude-3-7-sonnet-20250219'',
         capabilities = [''Reasoning'', ''Efficient'', ''Agentic'']\<rparr>),
     (''qwen-qwq'',
        \<lparr>provider = ''Groq'', name = ''Qwen QWQ'',
         description = ''Latest version of Alibaba's Qwen QWQ with strong reasoning and coding capabilities.'',
         apiVersion = ''qwen-qwq'',
         capabilities = [''Reasoning'', ''Efficient'', ''Agentic'']\<rparr>),
     (''grok-3-mini'',
        \<lparr>provider = ''XAI'', name = ''Grok 3 Mini'',
         description = ''Latest version of XAI's Grok 3 Mini with strong reasoning and coding capabilities.'',
         apiVersion = ''grok-3-mini-latest'',
         capabilities = [''Reasoning'', ''Efficient'', ''Agentic'']\<rparr>),
     (''gemini-pro'',
        \<lparr>provider = ''Google'', name = ''Gemini Pro'',
         description = ''Google's Gemini Pro model with strong reasoning, coding, and multimodal capabilities.'',
         apiVersion = ''gemini-pro'',
         capabilities = [''Reasoning'', ''Multimodal'', ''Coding'']\<rparr>),
     (''gemini-2-5-flash-preview'',
        \<lparr>provider = ''Google'', name = ''Gemini 2.5 Flash Preview'',
         description = ''Latest preview version of Gemini 2.5 Flash with improved speed and capabilities.'',
         apiVersion = ''gemini-2.5-flash-preview-04-17'',
         capabilities = [''Fast'', ''Preview'', ''Improved'']\<rparr>),
     (''gemini-2-5-pro-exp'',
        \<lparr>provider = ''Google'', name = ''Gemini 2.5 Pro Experimental'',
         description = ''Experimental version of Gemini 2.5 Pro with advanced features and capabilities.'',
         apiVersion = ''gemini-2.5-pro-exp-03-25'',
         capabilities = [''Advanced'', ''Experimental'', ''Enhanced'']\<rparr>),
     (''gemini-2-0-flash'',
        \<lparr>provider = ''Google'', name = ''Gemini 2.0 Flash'',
         description = ''Fast and efficient version of Gemini 2.0 optimized for quick responses.'',
         apiVersion = ''gemini-2.0-flash'',
         capabilities = [''Fast'', ''Efficient'', ''Optimized'']\<rparr>)]"


subsection \<open>The exported identifier list and default (lines 230-232)\<close>

text \<open>
  \<open>Object.keys\<close> lists the own string keys in insertion order (none of the keys here is an
  array index).
\<close>

definition MODELS :: "string list" where
  "MODELS = map fst languageModels"

definition defaultModel :: string where
  "defaultModel = ''qwen-qwq''"


subsection \<open>The store-change listener (lines 215-222)\<close>

text \<open>
  \<open>String.prototype.includes\<close>: does the search string occur somewhere in the receiver?
\<close>

fun includes_str :: "string \<Rightarrow> string \<Rightarrow> bool" where
  "includes_str [] search = (search = [])"
| "includes_str (c # cs) search = (prefix search (c # cs) \<or> includes_str cs search)"

text \<open>A storage event; \<open>key\<close> is \<open>null\<close> when the whole store was cleared.\<close>

record StorageEvent =
  key :: "string option"
  oldValue :: "string option"
  newValue :: "string option"

text \<open>
  The listener's only effect is \<open>window.location.reload()\<close>; the state is the number of
  reloads requested so far. \<open>event.key?.includes(..)\<close> is \<open>undefined\<close>, hence falsy, for a
  \<open>null\<close> key.
\<close>

definition storageListener :: "StorageEvent \<Rightarrow> nat \<Rightarrow> nat" where
  "storageListener event reloads =
     (case key event of
        None \<Rightarrow> reloads
      | Some k \<Rightarrow> if includes_str k ''API_KEY'' then Suc reloads else reloads)"


subsection \<open>Module initialization\<close>

text \<open>
  The factories come from the SDK packages and may throw. They are parameters of the
  model: each returns either the thrown exception or the constructed value. The module has
  no \<open>try\<close>, so the first exception ends its evaluation.
\<close>

record ('c, 'mw, 'm, 'p) sdk =
  extractReasoningMiddleware :: "ReasoningMiddlewareOptions \<Rightarrow> error + 'mw"
  createClient :: "ClientRef \<Rightarrow> ClientSettings \<Rightarrow> error + 'c"
  callClient :: "'c \<Rightarrow> string \<Rightarrow> error + 'm"
  wrapLanguageModel :: "'m \<Rightarrow> 'mw \<Rightarrow> ProviderOptions option \<Rightarrow> error + 'm"
  customProvider :: "(string \<times> 'm) list \<Rightarrow> error + 'p"

text \<open>One client construction: the settings object is evaluated, then the factory is called.\<close>

definition constructClient ::
  "('c, 'mw, 'm, 'p) sdk \<Rightarrow> env \<Rightarrow> Window option \<Rightarrow> ClientRef \<Rightarrow> error + 'c" where
  "constructClient s processEnv window c =
     and_then (clientSettings processEnv window c) (createClient s c)"

text \<open>The five client constructions, in the order of the source.\<close>

definition createClients ::
  "('c, 'mw, 'm, 'p) sdk \<Rightarrow> env \<Rightarrow> Window option \<Rightarrow> error + (ClientRef \<Rightarrow> 'c)" where
  "createClients s processEnv window =
     and_then (constructClient s processEnv window openaiClient) (\<lambda>c1.
     and_then (constructClient s processEnv window anthropicClient) (\<lambda>c2.
     and_then (constructClient s processEnv window groqClient) (\<lambda>c3.
     and_then (constructClient s processEnv window xaiClient) (\<lambda>c4.
     and_then (constructClient s processEnv window googleClient) (\<lambda>c5.
     Inr (\<lambda>r. case r of
            openaiClient \<Rightarrow> c1
          | anthropicClient \<Rightarrow> c2
          | groqClient \<Rightarrow> c3
          | xaiClient \<Rightarrow> c4
          | googleClient \<Rightarrow> c5))))))"

text \<open>Evaluating one property value of the registry literal.\<close>

fun constructEntry ::
  "('c, 'mw, 'm, 'p) sdk \<Rightarrow> (ClientRef \<Rightarrow> 'c) \<Rightarrow> 'mw \<Rightarrow> ModelExpr \<Rightarrow> error + 'm" where
  "constructEntry s clients mw (Direct c v) = callClient s (clients c) v"
| "constructEntry s clients mw (Wrapped c v po) =
     and_then (callClient s (clients c) v) (\<lambda>m. wrapLanguageModel s m mw po)"

text \<open>Evaluating the literal: property by property, in order.\<close>

fun constructEntries ::
  "('c, 'mw, 'm, 'p) sdk \<Rightarrow> (ClientRef \<Rightarrow> 'c) \<Rightarrow> 'mw \<Rightarrow> (string \<times> ModelExpr) list
     \<Rightarrow> error + (string \<times> 'm) list" where
  "constructEntries s clients mw [] = Inr []"
| "constructEntries s clients mw ((k, e) # rest) =
     and_then (constructEntry s clients mw e) (\<lambda>m.
     and_then (constructEntries s clients mw rest) (\<lambda>ms. Inr ((k, m) # ms)))"

record ('m, 'p) ModuleExports =
  registry :: "(string \<times> 'm) list"
  model :: 'p
  modelIds :: "string list"

definition initModule ::
  "('c, 'mw, 'm, 'p) sdk \<Rightarrow> env \<Rightarrow> Window option \<Rightarrow> error + ('m, 'p) ModuleExports" where
  "initModule s processEnv window =
     and_then (extractReasoningMiddleware s middleware) (\<lambda>mw.
     and_then (createClients s processEnv window) (\<lambda>clients.
     and_then (constructEntries s clients mw languageModels) (\<lambda>ms.
     and_then (customProvider s ms) (\<lambda>p.
     Inr \<lparr>registry = ms, model = p, modelIds = map fst ms\<rparr>))))"


subsection \<open>Concrete SDKs\<close>

text \<open>
  Stand-ins for the SDK packages, used to run \<open>initModule\<close>: one whose factories all
  succeed, one whose Google client factory throws, and one where \<open>wrapLanguageModel\<close> throws
  for the backend version \<open>gemini-2.0-flash\<close>. A client is its reference, a model instance
  is a string describing it.
\<close>

definition sdk_ok :: "(ClientRef, string, string, string list) sdk" where
  "sdk_ok =
     \<lparr>extractReasoningMiddleware = (\<lambda>opts. Inr (tagName opts)),
      createClient = (\<lambda>c settings. Inr c),
      callClient = (\<lambda>c v. Inr v),
      wrapLanguageModel = (\<lambda>m mw po. Inr (mw @ '':'' @ m)),
      customProvider = (\<lambda>ms. Inr (map fst ms))\<rparr>"

definition sdk_google_fails :: "(ClientRef, string, string, string list) sdk" where
  "sdk_google_fails =
     sdk_ok\<lparr>createClient :=
       (\<lambda>c settings. if c = googleClient then Inl (Thrown ''google client'') else Inr c)\<rparr>"

definition sdk_wrap_fails :: "(ClientRef, string, string, string list) sdk" where
  "sdk_wrap_fails =
     sdk_ok\<lparr>wrapLanguageModel :=
       (\<lambda>m mw po. if m = ''gemini-2.0-flash'' then Inl (Thrown ''wrap'') else Inr (mw @ '':'' @ m))\<rparr>"

text \<open>
  An SDK whose model instances can be inspected: an instance records the backend version it
  was made for, the reasoning tag of the middleware around it, and the provider options it
  carries. Its \<open>wrapLanguageModel\<close> builds the wrapped instance from the model and the
  middleware alone and reads no other property of its argument.
\<close>

record Instance =
  backend :: string
  reasoningTag :: "string option"
  carriedOptions :: "ProviderOptions option"

definition sdk_wrapper_ignores_options :: "(ClientRef, string, Instance, string list) sdk" where
  "sdk_wrapper_ignores_options =
     \<lparr>extractReasoningMiddleware = (\<lambda>opts. Inr (tagName opts)),
      createClient = (\<lambda>c settings. Inr c),
      callClient = (\<lambda>c v. Inr \<lparr>backend = v, reasoningTag = None, carriedOptions = None\<rparr>),
      wrapLanguageModel = (\<lambda>m mw po. Inr (m\<lparr>reasoningTag := Some mw\<rparr>)),
      customProvider = (\<lambda>ms. Inr (map fst ms))\<rparr>"


section \<open>Properties\<close>

subsection \<open>Key lists of the two tables\<close>

lemma languageModels_keys:
  "map fst languageModels =
     [''gpt-4.1-mini'', ''claude-3-7-sonnet'', ''qwen-qwq'', ''grok-3-mini'',
      ''gemini-pro'', ''gemini-2-5-flash-preview'', ''gemini-2-5-pro-exp'', ''gemini-2-0-flash'']"
  by (simp add: languageModels_def)

lemma modelDetails_keys:
  "map fst modelDetails =
     [''gpt-4.1-mini'', ''claude-3-7-sonnet'', ''qwen-qwq'', ''grok-3-mini'',
      ''gemini-pro'', ''gemini-2-5-flash-preview'', ''gemini-2-5-pro-exp'', ''gemini-2-0-flash'']"
  by (simp add: modelDetails_def)

lemma map_of_defined_iff: "map_of xs k \<noteq> None \<longleftrightarrow> k \<in> set (map fst xs)"
  by (simp add: map_of_eq_None_iff)

lemma count_by_key: "length (filter (\<lambda>entry. fst entry = k) xs) = length (filter (\<lambda>x. x = k) (map fst xs))"
  by (induction xs) auto

text \<open>
  Claim C1 (key-set parity). An identifier has an entry in the registry \<open>languageModels\<close>
  exactly when it has one in the catalog \<open>modelDetails\<close>; a registry key has exactly one
  catalog record; and every identifier of \<open>MODELS\<close> has a catalog record.
\<close>

theorem registry_catalog_parity:
  "(map_of languageModels k \<noteq> None \<longleftrightarrow> map_of modelDetails k \<noteq> None)
   \<and> (map_of languageModels k \<noteq> None \<longrightarrow>
        length (filter (\<lambda>entry. fst entry = k) modelDetails) = 1)
   \<and> (k \<in> set MODELS \<longrightarrow> map_of modelDetails k \<noteq> None)"
proof -
  have same: "map fst languageModels = map fst modelDetails"
    by (simp only: languageModels_keys modelDetails_keys)
  have one: "length (filter (\<lambda>x. x = k) (map fst modelDetails)) = 1"
    if "k \<in> set (map fst modelDetails)"
    using that unfolding modelDetails_keys by auto
  show ?thesis
    unfolding map_of_defined_iff MODELS_def count_by_key same
    using one by simp
qed

theorem registry_catalog_parity_witness:
  "map_of languageModels ''gemini-pro'' \<noteq> None
   \<and> map_of modelDetails ''gemini-pro'' \<noteq> None
   \<and> length (filter (\<lambda>entry. fst entry = ''gemini-pro'') modelDetails) = 1
   \<and> ''gemini-pro'' \<in> set MODELS"
proof -
  have m: "''gemini-pro'' \<in> set MODELS"
    by (simp add: MODELS_def languageModels_keys)
  have l: "map_of languageModels ''gemini-pro'' \<noteq> None"
    by (simp add: languageModels_def)
  from registry_catalog_parity [of "''gemini-pro''"] m l show ?thesis by blast
qed

subsection \<open>Credential resolution\<close>

text \<open>
  Claim C2 (credential precedence). When the environment and the persistent store both hold
  a non-empty value for a key, \<open>getApiKey\<close> returns the environment value and reads nothing
  from the store; a non-empty environment value is returned whatever the window is. A call
  that returns has read the store (once, for that key) exactly when the environment value
  is absent or empty and a window exists, and a call throws only in that same case.
\<close>

theorem getApiKey_env_precedence:
  "(processEnv k = Some v \<and> v \<noteq> [] \<and> window = Some w \<and> localStorage w = Readable store
      \<and> store k = Some x \<and> x \<noteq> []
      \<longrightarrow> getApiKey processEnv window k = Inr (Some v, []))
   \<and> (processEnv k = Some v \<and> v \<noteq> [] \<longrightarrow> getApiKey processEnv window k = Inr (Some v, []))
   \<and> (getApiKey processEnv window k = Inr (r, reads) \<longrightarrow>
        reads = (if (processEnv k = None \<or> processEnv k = Some []) \<and> window \<noteq> None
                 then [k] else []))
   \<and> (getApiKey processEnv window k = Inl err \<longrightarrow>
        (processEnv k = None \<or> processEnv k = Some []) \<and> window \<noteq> None)"
  by (cases "processEnv k"; cases window; cases "localStorage (the window)")
     (auto simp: getApiKey_def or_undefined_def)

theorem getApiKey_env_precedence_witness:
  "getApiKey [''OPENAI_API_KEY'' \<mapsto> ''sk-env'']
     (Some \<lparr>localStorage = Readable [''OPENAI_API_KEY'' \<mapsto> ''sk-store'']\<rparr>)
     ''OPENAI_API_KEY'' = Inr (Some ''sk-env'', [])"
  using getApiKey_env_precedence
    [of "[''OPENAI_API_KEY'' \<mapsto> ''sk-env'']" "''OPENAI_API_KEY''" "''sk-env''"
        "Some \<lparr>localStorage = Readable [''OPENAI_API_KEY'' \<mapsto> ''sk-store'']\<rparr>"
        "\<lparr>localStorage = Readable [''OPENAI_API_KEY'' \<mapsto> ''sk-store'']\<rparr>"
        "[''OPENAI_API_KEY'' \<mapsto> ''sk-store'']" "''sk-store''"]
  by simp

text \<open>
  Where the environment holds no value and either there is no window or the window's store
  is readable and holds no value, \<open>getApiKey\<close> returns the absent value.
\<close>

lemma getApiKey_absent:
  "processEnv k = None \<Longrightarrow>
   window = None \<or> (\<exists>w store. window = Some w \<and> localStorage w = Readable store \<and> store k = None)
     \<Longrightarrow> \<exists>reads. getApiKey processEnv window k = Inr (None, reads)"
  by (auto simp: getApiKey_def or_undefined_def)

text \<open>
  Claim C7 (credential absence). With neither source holding a value, \<open>getApiKey\<close> is to
  return the absent value and raise nothing. On a window whose store cannot be read it
  throws instead: with an empty environment, a window without the \<open>localStorage\<close> property
  gives a \<open>TypeError\<close>, and a window that denies access to it gives a \<open>SecurityError\<close>.
\<close>

theorem getApiKey_throws_without_store:
  "getApiKey Map.empty (Some \<lparr>localStorage = Missing\<rparr>) ''OPENAI_API_KEY''
      = Inl (Thrown ''TypeError'')
   \<and> getApiKey Map.empty (Some \<lparr>localStorage = Denied\<rparr>) ''OPENAI_API_KEY''
      = Inl (Thrown ''SecurityError'')"
  by (simp add: getApiKey_def)

text \<open>
  Claim C9 (no empty credential). \<open>getApiKey\<close> never returns the empty string. An empty
  environment value is treated exactly as an absent one, and when the environment value is
  absent or empty, an empty or \<open>null\<close> value in a readable store gives the absent result.
\<close>

theorem getApiKey_never_empty:
  "getApiKey processEnv window k \<noteq> Inr (Some [], reads)
   \<and> (processEnv k = Some [] \<longrightarrow>
        getApiKey processEnv window k = getApiKey (processEnv(k := None)) window k)
   \<and> (\<not> truthy (processEnv k) \<and> window = Some w \<and> localStorage w = Readable store
        \<and> (store k = None \<or> store k = Some [])
        \<longrightarrow> getApiKey processEnv window k = Inr (None, [k]))"
  by (cases "processEnv k"; cases window; cases "localStorage (the window)")
     (auto simp: getApiKey_def or_undefined_def)

theorem getApiKey_never_empty_witness:
  "getApiKey [''XAI_API_KEY'' \<mapsto> []] (Some \<lparr>localStorage = Readable [''XAI_API_KEY'' \<mapsto> []]\<rparr>)
       ''XAI_API_KEY'' = Inr (None, [''XAI_API_KEY''])
   \<and> getApiKey [''XAI_API_KEY'' \<mapsto> []] (Some \<lparr>localStorage = Readable [''XAI_API_KEY'' \<mapsto> ''k'']\<rparr>)
       ''XAI_API_KEY''
       = getApiKey ([''XAI_API_KEY'' \<mapsto> []](''XAI_API_KEY'' := None))
           (Some \<lparr>localStorage = Readable [''XAI_API_KEY'' \<mapsto> ''k'']\<rparr>) ''XAI_API_KEY''"
proof -
  have a: "\<not> truthy ([''XAI_API_KEY'' \<mapsto> []] ''XAI_API_KEY'')" by simp
  have b: "[''XAI_API_KEY'' \<mapsto> []] ''XAI_API_KEY'' = Some []" by simp
  have c: "localStorage \<lparr>localStorage = Readable [''XAI_API_KEY'' \<mapsto> []]\<rparr>
             = Readable [''XAI_API_KEY'' \<mapsto> []]" by simp
  have d: "[''XAI_API_KEY'' \<mapsto> []] ''XAI_API_KEY'' = None
           \<or> [''XAI_API_KEY'' \<mapsto> []] ''XAI_API_KEY'' = Some []" by simp
  note first = getApiKey_never_empty
      [of "[''XAI_API_KEY'' \<mapsto> []]"
          "Some \<lparr>localStorage = Readable [''XAI_API_KEY'' \<mapsto> []]\<rparr>" "''XAI_API_KEY''" "[]"
          "\<lparr>localStorage = Readable [''XAI_API_KEY'' \<mapsto> []]\<rparr>" "[''XAI_API_KEY'' \<mapsto> []]",
       THEN conjunct2, THEN conjunct2, rule_format,
       OF conjI [OF a conjI [OF refl conjI [OF c d]]]]
  note second = getApiKey_never_empty
      [of "[''XAI_API_KEY'' \<mapsto> []]"
          "Some \<lparr>localStorage = Readable [''XAI_API_KEY'' \<mapsto> ''k'']\<rparr>" "''XAI_API_KEY''" "[]",
       THEN conjunct2, THEN conjunct1, rule_format, OF b]
  from first second show ?thesis by blast
qed

subsection \<open>The default identifier\<close>

text \<open>
  Claim C6 (default identifier). \<open>defaultModel\<close> is a member of \<open>MODELS\<close>.
\<close>

theorem defaultModel_in_MODELS: "defaultModel \<in> set MODELS"
  by (simp add: defaultModel_def MODELS_def languageModels_keys)

subsection \<open>The store-change listener\<close>

text \<open>\<open>includes_str\<close> is the substring test.\<close>

lemma includes_str_iff: "includes_str s t \<longleftrightarrow> (\<exists>p q. s = p @ t @ q)"
proof (induction s)
  case Nil show ?case by auto
next
  case (Cons c cs)
  have "(\<exists>p q. c # cs = p @ t @ q) \<longleftrightarrow> sublist t (c # cs)" by (auto simp: sublist_def)
  also have "\<dots> \<longleftrightarrow> prefix t (c # cs) \<or> sublist t cs" by (rule sublist_Cons_right)
  also have "\<dots> \<longleftrightarrow> prefix t (c # cs) \<or> (\<exists>p q. cs = p @ t @ q)" by (auto simp: sublist_def)
  finally show ?case using Cons.IH by simp
qed

text \<open>
  Claim C8 (reload trigger). The storage listener requests one reload exactly when the
  event's key is present and contains \<open>API_KEY\<close> as a substring; otherwise it requests none.
\<close>

theorem storageListener_reload:
  "storageListener event n =
     (if (\<exists>k p q. key event = Some k \<and> k = p @ ''API_KEY'' @ q) then Suc n else n)"
  by (cases "key event") (simp_all add: storageListener_def includes_str_iff)

text \<open>The listener on four concrete events.\<close>

lemma storageListener_examples:
  "storageListener \<lparr>key = Some ''OPENAI_API_KEY'', oldValue = None, newValue = Some ''x''\<rparr> 0 = 1"
  "storageListener \<lparr>key = Some ''theme'', oldValue = None, newValue = Some ''dark''\<rparr> 0 = 0"
  "storageListener \<lparr>key = Some ''api_key'', oldValue = None, newValue = Some ''x''\<rparr> 0 = 0"
  "storageListener \<lparr>key = None, oldValue = None, newValue = None\<rparr> 0 = 0"
  by (simp_all add: storageListener_def)

subsection \<open>Provider options of the Google entries\<close>

text \<open>
  The entries built from \<open>googleClient\<close> are the four gemini identifiers, and the
  construction of each of them hands the same provider options to \<open>wrapLanguageModel\<close>,
  next to the model and the middleware: response modalities \<open>[TEXT]\<close>, thinking budget
  1024, and the four safety settings at \<open>BLOCK_MEDIUM_AND_ABOVE\<close>.
\<close>

lemma google_entries:
  "map fst (filter (\<lambda>entry. backendClient (snd entry) = googleClient) languageModels) =
     [''gemini-pro'', ''gemini-2-5-flash-preview'', ''gemini-2-5-pro-exp'', ''gemini-2-0-flash'']"
  by (simp add: languageModels_def)

lemma google_options_passed:
  "(k, e) \<in> set languageModels \<Longrightarrow> backendClient e = googleClient \<Longrightarrow>
     constructEntry s clients mw e =
       and_then (callClient s (clients googleClient) (backendVersion e))
         (\<lambda>m. wrapLanguageModel s m mw
            (Some \<lparr>google = \<lparr>
               responseModalities = [TEXT],
               thinkingConfig = \<lparr>thinkingBudget = 1024\<rparr>,
               safetySettings =
                 [\<lparr>category = HARM_CATEGORY_DANGEROUS_CONTENT, threshold = BLOCK_MEDIUM_AND_ABOVE\<rparr>,
                  \<lparr>category = HARM_CATEGORY_HATE_SPEECH, threshold = BLOCK_MEDIUM_AND_ABOVE\<rparr>,
                  \<lparr>category = HARM_CATEGORY_HARASSMENT, threshold = BLOCK_MEDIUM_AND_ABOVE\<rparr>,
                  \<lparr>category = HARM_CATEGORY_SEXUALLY_EXPLICIT, threshold = BLOCK_MEDIUM_AND_ABOVE\<rparr>]\<rparr>\<rparr>))"
  unfolding languageModels_def by auto

text \<open>
  Claim C3 (Google-family fixed options). Every Google-family registry entry is to carry the
  fixed provider options. The registry entry is the value \<open>wrapLanguageModel\<close> returns, and
  the options reach it only as a property of that call's argument. With a wrapper that
  builds the instance from the model and the middleware alone, initialization succeeds and
  each of the four gemini entries carries the reasoning tag and no provider options.
\<close>

theorem google_entries_carry_no_options:
  "\<exists>ex. initModule sdk_wrapper_ignores_options Map.empty None = Inr ex
     \<and> map (\<lambda>k. map_option carriedOptions (map_of (registry ex) k))
          [''gemini-pro'', ''gemini-2-5-flash-preview'', ''gemini-2-5-pro-exp'', ''gemini-2-0-flash'']
        = [Some None, Some None, Some None, Some None]
     \<and> map (\<lambda>k. map_option reasoningTag (map_of (registry ex) k))
          [''gemini-pro'', ''gemini-2-5-flash-preview'', ''gemini-2-5-pro-exp'', ''gemini-2-0-flash'']
        = [Some (Some ''think''), Some (Some ''think''), Some (Some ''think''), Some (Some ''think'')]"
  by (simp add: initModule_def createClients_def constructClient_def and_then_def getApiKey_def
      sdk_wrapper_ignores_options_def languageModels_def middleware_def)

subsection \<open>Catalog version strings against backend versions\<close>

text \<open>
  Claim C10 (apiVersion against backend version). For every identifier of the registry other
  than qwen-qwq, the catalog's \<open>apiVersion\<close> is the version string with which the entry's
  construction calls the provider client, for any SDK; for qwen-qwq the catalog says
  \<open>qwen-qwq\<close> and the construction calls the client with \<open>qwen-qwq-32b\<close>.
\<close>

theorem apiVersion_matches_backend:
  "(k \<in> set MODELS \<and> k \<noteq> ''qwen-qwq'' \<longrightarrow>
      (\<exists>info e. map_of modelDetails k = Some info \<and> map_of languageModels k = Some e
         \<and> apiVersion info = backendVersion e
         \<and> constructEntry s clients mw e =
             (case e of
                Direct c v \<Rightarrow> callClient s (clients c) (apiVersion info)
              | Wrapped c v po \<Rightarrow>
                  and_then (callClient s (clients c) (apiVersion info))
                    (\<lambda>m. wrapLanguageModel s m mw po))))
   \<and> map_option apiVersion (map_of modelDetails ''qwen-qwq'') = Some ''qwen-qwq''
   \<and> map_option backendVersion (map_of languageModels ''qwen-qwq'') = Some ''qwen-qwq-32b''
   \<and> map_option (constructEntry s clients mw) (map_of languageModels ''qwen-qwq'') =
       Some (and_then (callClient s (clients groqClient) ''qwen-qwq-32b'')
               (\<lambda>m. wrapLanguageModel s m mw None))"
proof (intro conjI impI)
  assume "k \<in> set MODELS \<and> k \<noteq> ''qwen-qwq''"
  then have "k \<in> {''gpt-4.1-mini'', ''claude-3-7-sonnet'', ''grok-3-mini'',
      ''gemini-pro'', ''gemini-2-5-flash-preview'', ''gemini-2-5-pro-exp'', ''gemini-2-0-flash''}"
    by (auto simp: MODELS_def languageModels_def)
  then show "\<exists>info e. map_of modelDetails k = Some info \<and> map_of languageModels k = Some e
         \<and> apiVersion info = backendVersion e
         \<and> constructEntry s clients mw e =
             (case e of
                Direct c v \<Rightarrow> callClient s (clients c) (apiVersion info)
              | Wrapped c v po \<Rightarrow>
                  and_then (callClient s (clients c) (apiVersion info))
                    (\<lambda>m. wrapLanguageModel s m mw po))"
    by (auto simp: modelDetails_def languageModels_def)
next
  show "map_option apiVersion (map_of modelDetails ''qwen-qwq'') = Some ''qwen-qwq''"
    by (simp add: modelDetails_def)
next
  show "map_option backendVersion (map_of languageModels ''qwen-qwq'') = Some ''qwen-qwq-32b''"
    by (simp add: languageModels_def)
next
  show "map_option (constructEntry s clients mw) (map_of languageModels ''qwen-qwq'') =
       Some (and_then (callClient s (clients groqClient) ''qwen-qwq-32b'')
               (\<lambda>m. wrapLanguageModel s m mw None))"
    by (simp add: languageModels_def)
qed

theorem apiVersion_matches_backend_witness:
  "''claude-3-7-sonnet'' \<in> set MODELS
   \<and> (\<exists>info e. map_of modelDetails ''claude-3-7-sonnet'' = Some info
         \<and> map_of languageModels ''claude-3-7-sonnet'' = Some e
         \<and> apiVersion info = backendVersion e
         \<and> constructEntry sdk_ok id ''think'' e = Inr (apiVersion info))"
proof -
  have m: "''claude-3-7-sonnet'' \<in> set MODELS" by (simp add: MODELS_def languageModels_def)
  have n: "''claude-3-7-sonnet'' \<noteq> ''qwen-qwq''" by simp
  from apiVersion_matches_backend
    [of "''claude-3-7-sonnet''" sdk_ok id "''think''", THEN conjunct1, rule_format, OF conjI [OF m n]]
  obtain info e where
    i: "map_of modelDetails ''claude-3-7-sonnet'' = Some info"
    and e: "map_of languageModels ''claude-3-7-sonnet'' = Some e"
    and v: "apiVersion info = backendVersion e"
    and c: "constructEntry sdk_ok id ''think'' e =
             (case e of
                Direct c v \<Rightarrow> callClient sdk_ok (id c) (apiVersion info)
              | Wrapped c v po \<Rightarrow>
                  and_then (callClient sdk_ok (id c) (apiVersion info))
                    (\<lambda>m. wrapLanguageModel sdk_ok m ''think'' po))"
    by blast
  from e have "e = Direct anthropicClient ''claude-3-7-sonnet-20250219''"
    by (simp add: languageModels_def)
  with c have "constructEntry sdk_ok id ''think'' e = Inr (apiVersion info)"
    by (simp add: sdk_ok_def)
  with m i e v show ?thesis by blast
qed

subsection \<open>Module initialization is all or nothing\<close>

text \<open>The tag name of the one middleware binding, and which entries are wrapped with it.\<close>

lemma middleware_tagName: "tagName middleware = ''think''"
  by (simp add: middleware_def)

lemma wrapped_entries:
  "map fst (filter (\<lambda>entry. isWrapped (snd entry)) languageModels) =
     [''qwen-qwq'', ''gemini-pro'', ''gemini-2-5-flash-preview'', ''gemini-2-5-pro-exp'',
      ''gemini-2-0-flash'']"
  by (simp add: languageModels_def)

text \<open>Success of a sequence is success of each step.\<close>

lemma and_then_Inr_iff: "and_then r f = Inr y \<longleftrightarrow> (\<exists>x. r = Inr x \<and> f x = Inr y)"
  by (cases r) (simp_all add: and_then_def)

lemma not_Inr_is_Inl: "(\<forall>y. r \<noteq> Inr y) \<Longrightarrow> \<exists>e. r = Inl e"
  by (cases r) auto

lemma list_all2_memD: "list_all2 P xs ys \<Longrightarrow> x \<in> set xs \<Longrightarrow> \<exists>y. P x y"
  by (induction rule: list_all2_induct) auto

lemma createClients_Inr_iff:
  "createClients s processEnv window = Inr clients \<longleftrightarrow>
     (\<forall>c. constructClient s processEnv window c = Inr (clients c))"
proof
  assume "createClients s processEnv window = Inr clients"
  then obtain c1 c2 c3 c4 c5 where
    "constructClient s processEnv window openaiClient = Inr c1"
    "constructClient s processEnv window anthropicClient = Inr c2"
    "constructClient s processEnv window groqClient = Inr c3"
    "constructClient s processEnv window xaiClient = Inr c4"
    "constructClient s processEnv window googleClient = Inr c5"
    "clients = (\<lambda>r. case r of openaiClient \<Rightarrow> c1 | anthropicClient \<Rightarrow> c2 | groqClient \<Rightarrow> c3
                 | xaiClient \<Rightarrow> c4 | googleClient \<Rightarrow> c5)"
    unfolding createClients_def and_then_Inr_iff by blast
  then show "\<forall>c. constructClient s processEnv window c = Inr (clients c)"
    by (auto split: ClientRef.split)
next
  assume all: "\<forall>c. constructClient s processEnv window c = Inr (clients c)"
  have "(\<lambda>r. case r of openaiClient \<Rightarrow> clients openaiClient
            | anthropicClient \<Rightarrow> clients anthropicClient
            | groqClient \<Rightarrow> clients groqClient
            | xaiClient \<Rightarrow> clients xaiClient
            | googleClient \<Rightarrow> clients googleClient) = clients"
    by (rule ext) (simp split: ClientRef.split)
  with all show "createClients s processEnv window = Inr clients"
    unfolding createClients_def by (simp add: and_then_def)
qed

lemma constructEntries_Inr_iff:
  "constructEntries s clients mw es = Inr ms \<longleftrightarrow>
     list_all2 (\<lambda>entry built. fst built = fst entry
                  \<and> constructEntry s clients mw (snd entry) = Inr (snd built)) es ms"
proof (induction es arbitrary: ms)
  case Nil
  show ?case by auto
next
  case (Cons a es)
  obtain k e where a: "a = (k, e)" by (cases a)
  show ?case
    unfolding a constructEntries.simps and_then_Inr_iff Cons.IH
    by (cases ms) auto
qed

lemma initModule_Inr_iff:
  "initModule s processEnv window = Inr ex \<longleftrightarrow>
     (\<exists>mw clients p.
        extractReasoningMiddleware s middleware = Inr mw
        \<and> createClients s processEnv window = Inr clients
        \<and> constructEntries s clients mw languageModels = Inr (registry ex)
        \<and> customProvider s (registry ex) = Inr p
        \<and> ex = \<lparr>registry = registry ex, model = p, modelIds = map fst (registry ex)\<rparr>)"
  unfolding initModule_def and_then_Inr_iff by auto

text \<open>
  Claim C5 (construction atomicity). If the construction of any provider client throws
  (in resolving its credential or in the factory), or
  (the middleware and the clients being built) the construction of any registry entry throws,
  then \<open>initModule\<close> as a whole ends in an exception and yields no exports. When
  \<open>initModule\<close> does yield exports, the registry has all the identifiers of \<open>MODELS\<close> in
  order, and every entry holds exactly the instance that its own construction expression
  returned: no entry is missing and none is substituted.
\<close>

theorem initModule_atomic:
  "(constructClient s processEnv window c = Inl err
      \<longrightarrow> (\<exists>err'. initModule s processEnv window = Inl err'))
   \<and> (extractReasoningMiddleware s middleware = Inr mw
        \<and> createClients s processEnv window = Inr clients
        \<and> (k, e) \<in> set languageModels
        \<and> constructEntry s clients mw e = Inl err
      \<longrightarrow> (\<exists>err'. initModule s processEnv window = Inl err'))
   \<and> (initModule s processEnv window = Inr ex
      \<longrightarrow> map fst (registry ex) = MODELS
          \<and> modelIds ex = MODELS
          \<and> (\<exists>mw' clients'.
                extractReasoningMiddleware s middleware = Inr mw'
                \<and> (\<forall>c'. constructClient s processEnv window c' = Inr (clients' c'))
                \<and> list_all2 (\<lambda>entry built. fst built = fst entry
                     \<and> constructEntry s clients' mw' (snd entry) = Inr (snd built))
                     languageModels (registry ex)))"
proof (intro conjI impI)
  assume fail: "constructClient s processEnv window c = Inl err"
  have "initModule s processEnv window \<noteq> Inr y" for y
  proof
    assume "initModule s processEnv window = Inr y"
    then obtain clients' where "createClients s processEnv window = Inr clients'"
      unfolding initModule_Inr_iff by blast
    then have "constructClient s processEnv window c = Inr (clients' c)"
      unfolding createClients_Inr_iff by blast
    with fail show False by simp
  qed
  then show "\<exists>err'. initModule s processEnv window = Inl err'"
    by (intro not_Inr_is_Inl) blast
next
  assume h: "extractReasoningMiddleware s middleware = Inr mw
        \<and> createClients s processEnv window = Inr clients
        \<and> (k, e) \<in> set languageModels
        \<and> constructEntry s clients mw e = Inl err"
  have "initModule s processEnv window \<noteq> Inr y" for y
  proof
    assume "initModule s processEnv window = Inr y"
    with h have "constructEntries s clients mw languageModels = Inr (registry y)"
      unfolding initModule_Inr_iff by auto
    then have l: "list_all2 (\<lambda>entry built. fst built = fst entry
                  \<and> constructEntry s clients mw (snd entry) = Inr (snd built))
                 languageModels (registry y)"
      unfolding constructEntries_Inr_iff .
    from h have mem: "(k, e) \<in> set languageModels" by blast
    from list_all2_memD [OF l mem]
    have "\<exists>m. constructEntry s clients mw e = Inr m" by auto
    with h show False by auto
  qed
  then show "\<exists>err'. initModule s processEnv window = Inl err'"
    by (intro not_Inr_is_Inl) blast
next
  assume ok: "initModule s processEnv window = Inr ex"
  then obtain mw' clients' p where
    mw: "extractReasoningMiddleware s middleware = Inr mw'"
    and cl: "createClients s processEnv window = Inr clients'"
    and es: "constructEntries s clients' mw' languageModels = Inr (registry ex)"
    and ex: "ex = \<lparr>registry = registry ex, model = p, modelIds = map fst (registry ex)\<rparr>"
    unfolding initModule_Inr_iff by blast
  from es have l: "list_all2 (\<lambda>entry built. fst built = fst entry
                  \<and> constructEntry s clients' mw' (snd entry) = Inr (snd built))
                 languageModels (registry ex)"
    unfolding constructEntries_Inr_iff .
  then have "list_all2 (\<lambda>entry built. fst built = fst entry) languageModels (registry ex)"
    by (rule list_all2_mono) simp
  then have "map fst (registry ex) = map fst languageModels"
    by (induction rule: list_all2_induct) simp_all
  then show keys: "map fst (registry ex) = MODELS" by (simp add: MODELS_def)
  have "modelIds \<lparr>registry = registry ex, model = p, modelIds = map fst (registry ex)\<rparr>
          = map fst (registry ex)" by simp
  with ex have "modelIds ex = map fst (registry ex)" by simp
  with keys show "modelIds ex = MODELS" by simp
  from mw cl l show "\<exists>mw' clients'.
                extractReasoningMiddleware s middleware = Inr mw'
                \<and> (\<forall>c'. constructClient s processEnv window c' = Inr (clients' c'))
                \<and> list_all2 (\<lambda>entry built. fst built = fst entry
                     \<and> constructEntry s clients' mw' (snd entry) = Inr (snd built))
                     languageModels (registry ex)"
    unfolding createClients_Inr_iff by blast
qed


theorem initModule_atomic_witness:
  "constructClient sdk_google_fails Map.empty None googleClient
      = Inl (Thrown ''google client'')
   \<and> (\<exists>err'. initModule sdk_google_fails Map.empty None = Inl err')
   \<and> last languageModels \<in> set languageModels
   \<and> createClients sdk_wrap_fails Map.empty None = Inr id
   \<and> constructEntry sdk_wrap_fails id ''think'' (snd (last languageModels)) = Inl (Thrown ''wrap'')
   \<and> (\<exists>err'. initModule sdk_wrap_fails Map.empty None = Inl err')
   \<and> (\<exists>ex. initModule sdk_ok Map.empty None = Inr ex \<and> map fst (registry ex) = MODELS)"
proof -
  have a: "constructClient sdk_google_fails Map.empty None googleClient
      = Inl (Thrown ''google client'')"
    by (simp add: constructClient_def and_then_def getApiKey_def sdk_google_fails_def sdk_ok_def)
  note A = initModule_atomic [THEN conjunct1, rule_format, OF a]
  have mw: "extractReasoningMiddleware sdk_wrap_fails middleware = Inr ''think''"
    by (simp add: sdk_wrap_fails_def sdk_ok_def middleware_def)
  have cl: "createClients sdk_wrap_fails Map.empty None = Inr id"
    unfolding createClients_Inr_iff
    by (rule allI, case_tac c)
       (simp_all add: constructClient_def and_then_def getApiKey_def sdk_wrap_fails_def sdk_ok_def)
  have mem: "(fst (last languageModels), snd (last languageModels)) \<in> set languageModels"
    by (simp add: languageModels_def)
  have fail: "constructEntry sdk_wrap_fails id ''think'' (snd (last languageModels))
      = Inl (Thrown ''wrap'')"
    by (simp add: languageModels_def sdk_wrap_fails_def sdk_ok_def and_then_def)
  note B = initModule_atomic [THEN conjunct2, THEN conjunct1, rule_format,
      OF conjI [OF mw conjI [OF cl conjI [OF mem fail]]]]
  obtain ex where ok: "initModule sdk_ok Map.empty None = Inr ex"
    by (simp add: initModule_def createClients_def constructClient_def and_then_def
        getApiKey_def sdk_ok_def languageModels_def middleware_def)
  note C = initModule_atomic [THEN conjunct2, THEN conjunct2, rule_format, OF ok]
  from a A mem cl fail B ok C show ?thesis by auto
qed

end
